theory Spec2Isabelle
  imports Main "HOL-Library.Sublist" "HOL-Library.Multiset"
begin

section \<open>Data model of \<open>data.service.ts\<close>\<close>

text \<open>
  The interfaces \<open>User\<close>, \<open>Category\<close> and \<open>Post\<close> are records. Record fields are global
  constants in HOL, so every field carries the name of its interface as a prefix
  (\<open>User.role\<close> is \<open>user_role\<close>, \<open>Post.date\<close> is \<open>post_date\<close>, and so on). The stored form
  of each document has no \<open>id\<close> (the source writes \<open>Omit<User, 'id'>\<close> and reads
  \<open>{ ...data[key], id: key }\<close>), so each interface is a record of the stored fields
  extended by the id.

  Strings are lists of 8-bit characters, read as the code units U+0000 to U+00FF.
  Text with code units above U+00FF is outside this model.
\<close>

datatype role = Admin | Publisher | User

text \<open>The optional field \<open>canEdit?: boolean\<close> is a \<open>bool option\<close>; \<open>None\<close> is \<open>undefined\<close>.\<close>

record user_data =
  user_email :: string
  user_name :: string
  user_role :: role
  user_canEdit :: "bool option"

record user = user_data +
  user_id :: string

record category_data =
  cat_name :: string
  cat_icon :: string
  cat_slug :: string

record category = category_data +
  cat_id :: string

record post_data =
  post_title :: string
  post_description :: string
  post_url :: string
  post_imageUrl :: string
  post_categoryId :: string
  post_publisherId :: string
  post_publisherName :: string
  post_date :: string
  post_views :: int

record post = post_data +
  post_id :: string

text \<open>\<open>Partial<Post>\<close>: every field may be absent.\<close>

record partial_post =
  pp_id :: "string option"
  pp_title :: "string option"
  pp_description :: "string option"
  pp_url :: "string option"
  pp_imageUrl :: "string option"
  pp_categoryId :: "string option"
  pp_publisherId :: "string option"
  pp_publisherName :: "string option"
  pp_date :: "string option"
  pp_views :: "int option"

text \<open>
  The argument of \<open>addPost\<close>:
  \<open>Omit<Post, 'id' | 'views' | 'date' | 'publisherId' | 'publisherName'>\<close>.
\<close>

record post_input =
  in_title :: string
  in_description :: string
  in_url :: string
  in_imageUrl :: string
  in_categoryId :: string

subsection \<open>The Remote Store, seen from the service\<close>

text \<open>
  The service does not implement the store: it calls \<open>set\<close>, \<open>update\<close> and \<open>remove\<close> of
  the SDK on a path and awaits the promise. The model records each such call, in order,
  in the field \<open>requests\<close> of the service state, and takes the outcome of the awaited
  promise as an argument of the operation. A key generated by \<open>push\<close> and the reading of
  the clock (\<open>new Date().toISOString()\<close>) are arguments as well.
\<close>

datatype request =
    SetCategory string category_data
  | SetPost string post_data
  | SetUser string user_data
  | UpdatePost string partial_post
  | UpdateUserCanEdit string bool
  | Remove string

datatype 'a promise = Fulfilled 'a | Rejected string

text \<open>
  \<open>PermissionDenied msg\<close> is \<open>throw new Error(msg)\<close>, which the service does at its two
  permission guards and nowhere else; \<open>RemoteError e\<close> is a rejection of the SDK that
  the service lets through.
\<close>

datatype error = PermissionDenied string | RemoteError string

record data_service =
  categories :: "category list"
  posts :: "post list"
  currentUser :: "user option"
  allUsers :: "user list"
  requests :: "request list"

text \<open>An operation returns its value or the error it throws, and the state it leaves.\<close>

type_synonym 'a result = "(error + 'a) \<times> data_service"

definition send :: "request \<Rightarrow> data_service \<Rightarrow> data_service" where
  "send r st = st\<lparr>requests := requests st @ [r]\<rparr>"

definition await :: "unit promise \<Rightarrow> 'a \<Rightarrow> data_service \<Rightarrow> 'a result" where
  "await p v st = (case p of Fulfilled _ \<Rightarrow> (Inr v, st) | Rejected e \<Rightarrow> (Inl (RemoteError e), st))"

subsection \<open>Computed signals\<close>

definition isAdmin :: "data_service \<Rightarrow> bool" where
  "isAdmin st = (case currentUser st of None \<Rightarrow> False | Some u \<Rightarrow> user_role u = Admin)"

definition isPublisher :: "data_service \<Rightarrow> bool" where
  "isPublisher st =
     (case currentUser st of None \<Rightarrow> False
      | Some u \<Rightarrow> user_role u = Publisher \<or> user_role u = Admin)"

definition canEdit :: "data_service \<Rightarrow> bool" where
  "canEdit st =
     (case currentUser st of
        None \<Rightarrow> False
      | Some u \<Rightarrow> if user_role u = Admin then True else user_canEdit u \<noteq> Some False)"

text \<open>The editable-flag of an identity as the spec reads it: true when unset.\<close>

definition editable_flag :: "user \<Rightarrow> bool" where
  "editable_flag u = (case user_canEdit u of None \<Rightarrow> True | Some b \<Rightarrow> b)"

subsection \<open>Strings: \<open>toLowerCase\<close>, \<open>replace(/\s+/g, ...)\<close>, \<open>includes\<close>\<close>

text \<open>
  \<open>toLowerCase\<close> on the code units U+0000 to U+00FF maps each unit on its own: the letters
  A to Z, and the letters U+00C0 to U+00DE except the multiplication sign U+00D7, move up
  by 32; every other unit stays.
\<close>

definition lower_unit :: "char \<Rightarrow> char" where
  "lower_unit c =
     (let n = (of_char c :: nat)
      in if (65 \<le> n \<and> n \<le> 90) \<or> (192 \<le> n \<and> n \<le> 222 \<and> n \<noteq> 215)
         then char_of (n + 32) else c)"

definition toLowerCase :: "string \<Rightarrow> string" where
  "toLowerCase s = map lower_unit s"

text \<open>
  The class \<open>\s\<close> of a JavaScript regular expression, below U+0100: tab, line feed,
  vertical tab, form feed, carriage return, space and the no-break space U+00A0.
\<close>

definition isSpace :: "char \<Rightarrow> bool" where
  "isSpace c = (let n = (of_char c :: nat) in (9 \<le> n \<and> n \<le> 13) \<or> n = 32 \<or> n = 160)"

text \<open>
  \<open>s.replace(/\s+/g, r)\<close>: scanning from the left, a unit that is not whitespace is
  copied; at a whitespace unit the greedy \<open>\s+\<close> takes the whole run, \<open>r\<close> is put in its
  place and the scan goes on behind the run.
\<close>

function replace_ws_runs :: "string \<Rightarrow> string \<Rightarrow> string" where
  "replace_ws_runs r [] = []"
| "replace_ws_runs r (c # cs) =
     (if isSpace c then r @ replace_ws_runs r (dropWhile isSpace cs)
      else c # replace_ws_runs r cs)"
  by pat_completeness auto
termination
  by (relation "measure (\<lambda>(r, s). length s)")
     (auto simp: le_imp_less_Suc length_dropWhile_le)

text \<open>\<open>hay.includes(needle)\<close>: the needle starts at some position of the hay.\<close>

fun includes_str :: "string \<Rightarrow> string \<Rightarrow> bool" where
  "includes_str [] needle = (needle = [])"
| "includes_str (c # cs) needle = (prefix needle (c # cs) \<or> includes_str cs needle)"

subsection \<open>Snapshot callbacks of \<open>initData\<close> and \<open>initAuth\<close>\<close>

text \<open>
  A snapshot value is \<open>null\<close> (\<open>None\<close>) or an object, given as the list of its keys with
  their documents in the order of \<open>Object.keys\<close>. Each callback replaces the local
  collection.
\<close>

definition category_of :: "string \<Rightarrow> category_data \<Rightarrow> category" where
  "category_of key d =
     \<lparr>cat_name = cat_name d, cat_icon = cat_icon d, cat_slug = cat_slug d, cat_id = key\<rparr>"

definition post_of :: "string \<Rightarrow> post_data \<Rightarrow> post" where
  "post_of key d =
     \<lparr>post_title = post_title d, post_description = post_description d, post_url = post_url d,
      post_imageUrl = post_imageUrl d, post_categoryId = post_categoryId d,
      post_publisherId = post_publisherId d, post_publisherName = post_publisherName d,
      post_date = post_date d, post_views = post_views d, post_id = key\<rparr>"

definition user_of :: "string \<Rightarrow> user_data \<Rightarrow> user" where
  "user_of key d =
     \<lparr>user_email = user_email d, user_name = user_name d, user_role = user_role d,
      user_canEdit = user_canEdit d, user_id = key\<rparr>"

definition onCategoriesValue ::
  "(string \<times> category_data) list option \<Rightarrow> data_service \<Rightarrow> data_service" where
  "onCategoriesValue snapshot st =
     (case snapshot of
        Some data \<Rightarrow> st\<lparr>categories := map (\<lambda>(key, d). category_of key d) data\<rparr>
      | None \<Rightarrow> st\<lparr>categories := []\<rparr>)"

text \<open>
  The comparator \<open>(a, b) => new Date(b.date).getTime() - new Date(a.date).getTime()\<close>.
  \<open>getTime s\<close> stands for \<open>new Date(s).getTime()\<close>: the milliseconds since the epoch, or
  \<open>None\<close> for \<open>NaN\<close>, which is what an invalid date gives. A difference with a \<open>NaN\<close>
  operand is \<open>NaN\<close>. The code subtracts doubles, which rounds a difference beyond 2^53; the
  model subtracts integers. The sign, which is all the sort reads, is the same.
\<close>

definition compareDates :: "(string \<Rightarrow> int option) \<Rightarrow> post \<Rightarrow> post \<Rightarrow> int option" where
  "compareDates getTime a b =
     (case getTime (post_date b) of
        None \<Rightarrow> None
      | Some tb \<Rightarrow> (case getTime (post_date a) of None \<Rightarrow> None | Some ta \<Rightarrow> Some (tb - ta)))"

text \<open>
  \<open>Array.prototype.sort\<close> with a comparator. The language fixes that a comparator result
  of \<open>NaN\<close> counts as 0 and that the sort is stable; the algorithm is the engine's. The
  model is the stable insertion sort: an element goes in front of the first element that
  it does not have to follow. Where the comparator orders the elements consistently, as
  it does when every date is valid, every engine returns this list. Where a comparison
  is \<open>NaN\<close> the comparator is no ordering, the language leaves the result to the engine,
  and the model gives one possible result.
\<close>

definition sortCompare :: "('a \<Rightarrow> 'a \<Rightarrow> int option) \<Rightarrow> 'a \<Rightarrow> 'a \<Rightarrow> int" where
  "sortCompare comparefn x y = (case comparefn x y of None \<Rightarrow> 0 | Some v \<Rightarrow> v)"

fun sort_insert :: "('a \<Rightarrow> 'a \<Rightarrow> int option) \<Rightarrow> 'a \<Rightarrow> 'a list \<Rightarrow> 'a list" where
  "sort_insert comparefn x [] = [x]"
| "sort_insert comparefn x (y # ys) =
     (if sortCompare comparefn x y \<le> 0 then x # y # ys
      else y # sort_insert comparefn x ys)"

definition array_sort :: "('a \<Rightarrow> 'a \<Rightarrow> int option) \<Rightarrow> 'a list \<Rightarrow> 'a list" where
  "array_sort comparefn xs = foldr (sort_insert comparefn) xs []"

definition onPostsValue ::
  "(string \<Rightarrow> int option) \<Rightarrow> (string \<times> post_data) list option \<Rightarrow> data_service
     \<Rightarrow> data_service" where
  "onPostsValue getTime snapshot st =
     (case snapshot of
        Some data \<Rightarrow>
          st\<lparr>posts := array_sort (compareDates getTime) (map (\<lambda>(key, d). post_of key d) data)\<rparr>
      | None \<Rightarrow> st\<lparr>posts := []\<rparr>)"

definition onUsersValue ::
  "(string \<times> user_data) list option \<Rightarrow> data_service \<Rightarrow> data_service" where
  "onUsersValue snapshot st =
     (case snapshot of
        Some data \<Rightarrow> st\<lparr>allUsers := map (\<lambda>(key, d). user_of key d) data\<rparr>
      | None \<Rightarrow> st\<lparr>allUsers := []\<rparr>)"

text \<open>The credential's user, as far as \<open>initAuth\<close> reads it; \<open>None\<close> is \<open>null\<close>.\<close>

record firebase_user =
  fb_uid :: string
  fb_email :: "string option"
  fb_displayName :: "string option"

text \<open>\<open>v || d\<close> on a string that may be \<open>null\<close>: \<open>null\<close> and the empty string give \<open>d\<close>.\<close>

definition or_else :: "string option \<Rightarrow> string \<Rightarrow> string" where
  "or_else v d = (case v of None \<Rightarrow> d | Some s \<Rightarrow> if s = [] then d else s)"

definition fallbackUser :: "firebase_user \<Rightarrow> user" where
  "fallbackUser firebaseUser =
     \<lparr>user_email = or_else (fb_email firebaseUser) [],
      user_name = or_else (fb_displayName firebaseUser) ''User'',
      user_role = User, user_canEdit = Some True, user_id = fb_uid firebaseUser\<rparr>"

text \<open>The callback on the profile \<open>users/<uid>\<close> of the signed-in credential.\<close>

definition onUserValue :: "firebase_user \<Rightarrow> user_data option \<Rightarrow> data_service \<Rightarrow> data_service" where
  "onUserValue firebaseUser snapshot st =
     (case snapshot of
        Some userData \<Rightarrow> st\<lparr>currentUser := Some (user_of (fb_uid firebaseUser) userData)\<rparr>
      | None \<Rightarrow> st\<lparr>currentUser := Some (fallbackUser firebaseUser)\<rparr>)"

text \<open>
  The callback of \<open>onAuthStateChanged\<close>: with a credential it only subscribes to the
  profile (whose snapshots arrive through \<open>onUserValue\<close>); without one it clears the
  current user.
\<close>

definition onAuthStateChanged :: "firebase_user option \<Rightarrow> data_service \<Rightarrow> data_service" where
  "onAuthStateChanged firebaseUser st =
     (case firebaseUser of Some _ \<Rightarrow> st | None \<Rightarrow> st\<lparr>currentUser := None\<rparr>)"

text \<open>The service as its field initialisers leave it.\<close>

definition initial :: data_service where
  "initial = \<lparr>categories = [], posts = [], currentUser = None, allUsers = [], requests = []\<rparr>"

section \<open>Operations of \<open>DataService\<close>\<close>

text \<open>
  Each \<open>async\<close> method runs up to its first \<open>await\<close> at the call, so its guards read the
  state of the call. \<open>key\<close> is the key that \<open>push\<close> generates, \<open>now\<close> the clock as
  \<open>toISOString\<close> prints it, and each \<open>promise\<close> argument the outcome of the SDK call that
  the method awaits.
\<close>

definition addCategory ::
  "data_service \<Rightarrow> string \<Rightarrow> string \<Rightarrow> string \<Rightarrow> unit promise \<Rightarrow> string result" where
  "addCategory st name icon key p =
     await p key
       (send (SetCategory (''categories/'' @ key)
                \<lparr>cat_name = name, cat_icon = icon,
                 cat_slug = replace_ws_runs ''-'' (toLowerCase name)\<rparr>) st)"

definition deleteCategory :: "data_service \<Rightarrow> string \<Rightarrow> unit promise \<Rightarrow> unit result" where
  "deleteCategory st ident p = await p () (send (Remove (''categories/'' @ ident)) st)"

definition addPost ::
  "data_service \<Rightarrow> post_input \<Rightarrow> string \<Rightarrow> string \<Rightarrow> unit promise \<Rightarrow> unit result" where
  "addPost st postData key now p =
     (case currentUser st of
        None \<Rightarrow> (Inr (), st)
      | Some u \<Rightarrow>
          if \<not> canEdit st then (Inl (PermissionDenied ''You do not have permission to post.''), st)
          else await p ()
                 (send (SetPost (''posts/'' @ key)
                          \<lparr>post_title = in_title postData,
                           post_description = in_description postData,
                           post_url = in_url postData, post_imageUrl = in_imageUrl postData,
                           post_categoryId = in_categoryId postData,
                           post_publisherId = user_id u, post_publisherName = user_name u,
                           post_date = now, post_views = 0\<rparr>) st))"

definition updatePost ::
  "data_service \<Rightarrow> string \<Rightarrow> partial_post \<Rightarrow> unit promise \<Rightarrow> unit result" where
  "updatePost st ident postData p =
     (case currentUser st of
        None \<Rightarrow> (Inr (), st)
      | Some u \<Rightarrow>
          if \<not> canEdit st
          then (Inl (PermissionDenied ''Permission denied: You cannot edit posts.''), st)
          else await p () (send (UpdatePost (''posts/'' @ ident) postData) st))"

definition deletePost :: "data_service \<Rightarrow> string \<Rightarrow> unit promise \<Rightarrow> unit result" where
  "deletePost st ident p = await p () (send (Remove (''posts/'' @ ident)) st)"

definition updateUserPermission ::
  "data_service \<Rightarrow> string \<Rightarrow> bool \<Rightarrow> unit promise \<Rightarrow> unit result" where
  "updateUserPermission st userId flag p =
     await p () (send (UpdateUserCanEdit (''users/'' @ userId) flag) st)"

text \<open>\<open>login\<close> and \<open>logout\<close> await the authentication calls, which write nothing to the store.\<close>

definition login :: "data_service \<Rightarrow> string \<Rightarrow> string \<Rightarrow> unit promise \<Rightarrow> bool result" where
  "login st email pass p = await p True st"

definition logout :: "data_service \<Rightarrow> unit promise \<Rightarrow> unit result" where
  "logout st p =
     (case p of
        Rejected e \<Rightarrow> (Inl (RemoteError e), st)
      | Fulfilled _ \<Rightarrow> (Inr (), st\<lparr>currentUser := None\<rparr>))"

text \<open>The parameter \<open>role: 'publisher' | 'user'\<close> of \<open>register\<close>.\<close>

datatype requested_role = AsPublisher | AsUser

fun role_of :: "requested_role \<Rightarrow> role" where
  "role_of AsPublisher = Publisher"
| "role_of AsUser = User"

text \<open>
  \<open>register\<close>: \<open>credential\<close> is the outcome of \<open>createUserWithEmailAndPassword\<close>, with the
  uid of the new credential; \<open>p\<close> is the outcome of writing the profile.
\<close>

definition register ::
  "data_service \<Rightarrow> string \<Rightarrow> string \<Rightarrow> string \<Rightarrow> requested_role \<Rightarrow> string promise
     \<Rightarrow> unit promise \<Rightarrow> bool result" where
  "register st name email pass role credential p =
     (case credential of
        Rejected e \<Rightarrow> (Inl (RemoteError e), st)
      | Fulfilled uid \<Rightarrow>
          let finalRole = (if email = ''moinulbd.sk@gmail.com'' then Admin else role_of role)
          in await p True
               (send (SetUser (''users/'' @ uid)
                        \<lparr>user_email = email, user_name = name, user_role = finalRole,
                         user_canEdit = Some True\<rparr>) st))"

section \<open>\<open>AppComponent\<close>: the filtered listings\<close>

record app_component =
  dataService :: data_service
  searchQuery :: string
  selectedCategory :: string

definition filteredPosts :: "app_component \<Rightarrow> post list" where
  "filteredPosts app =
     (let query = toLowerCase (searchQuery app);
          cat = selectedCategory app
      in filter (\<lambda>post.
           (includes_str (toLowerCase (post_title post)) query
              \<or> includes_str (toLowerCase (post_publisherName post)) query)
           \<and> (cat = ''all'' \<or> post_categoryId post = cat))
         (posts (dataService app)))"

section \<open>Properties as the specification words them\<close>

text \<open>
  "Spaces replaced by hyphens", read unit by unit: each space becomes one hyphen and
  nothing else changes.
\<close>

definition spaces_to_hyphens :: "string \<Rightarrow> string" where
  "spaces_to_hyphens s = map (\<lambda>c. if c = CHR '' '' then CHR ''-'' else c) s"

text \<open>
  The maximal runs of a string: it is cut wherever a whitespace unit meets a unit that
  is not whitespace. Each run is not empty and is whitespace throughout or not at all.
\<close>

function runs :: "string \<Rightarrow> string list" where
  "runs [] = []"
| "runs (c # cs) =
     (c # takeWhile (\<lambda>d. isSpace d = isSpace c) cs)
       # runs (dropWhile (\<lambda>d. isSpace d = isSpace c) cs)"
  by pat_completeness auto
termination
  by (relation "measure length") (auto simp: le_imp_less_Suc length_dropWhile_le)

text \<open>Every maximal run of whitespace replaced by one hyphen, the other runs kept.\<close>

definition hyphenate_run :: "string \<Rightarrow> string" where
  "hyphenate_run r = (case r of [] \<Rightarrow> [] | c # _ \<Rightarrow> if isSpace c then ''-'' else r)"

definition hyphenate_runs :: "string \<Rightarrow> string" where
  "hyphenate_runs s = concat (map hyphenate_run (runs s))"

text \<open>
  Two strings are equal up to letter case; a text contains a search text case-insensitively
  when one of its contiguous pieces equals the search text up to letter case.
\<close>

definition ci_equal :: "string \<Rightarrow> string \<Rightarrow> bool" where
  "ci_equal s t = list_all2 (\<lambda>a b. lower_unit a = lower_unit b) s t"

definition pieces :: "string \<Rightarrow> string list" where
  "pieces s = concat (map prefixes (suffixes s))"

definition ci_contains :: "string \<Rightarrow> string \<Rightarrow> bool" where
  "ci_contains txt search = list_ex (\<lambda>piece. ci_equal piece search) (pieces txt)"

definition listing_matches :: "string \<Rightarrow> string \<Rightarrow> post \<Rightarrow> bool" where
  "listing_matches search cat p =
     ((ci_contains (post_title p) search \<or> ci_contains (post_publisherName p) search)
      \<and> (post_categoryId p = cat \<or> cat = ''all''))"

text \<open>
  The order "newest first" on listings whose dates are read by \<open>getTime\<close>: the later
  listing's timestamp is not greater than the earlier one's. A comparison with \<open>NaN\<close> is
  false, so a listing without a timestamp is greater than none and less than none.
\<close>

definition not_newer :: "(string \<Rightarrow> int option) \<Rightarrow> post \<Rightarrow> post \<Rightarrow> bool" where
  "not_newer getTime earlier later =
     (case getTime (post_date later) of
        None \<Rightarrow> True
      | Some t2 \<Rightarrow> (case getTime (post_date earlier) of None \<Rightarrow> True | Some t1 \<Rightarrow> \<not> t1 < t2))"

definition valid_dates :: "(string \<Rightarrow> int option) \<Rightarrow> (string \<times> post_data) list \<Rightarrow> bool" where
  "valid_dates getTime data = list_all (\<lambda>(key, d). getTime (post_date d) \<noteq> None) data"

section \<open>Sample data\<close>

text \<open>Concrete identities, listings and clock readings on which the results below are run.\<close>

definition sample_user :: "role \<Rightarrow> bool option \<Rightarrow> user" where
  "sample_user r flag =
     \<lparr>user_email = ''pat@example.org'', user_name = ''Pat'', user_role = r,
      user_canEdit = flag, user_id = ''u1''\<rparr>"

definition signed_in :: "user \<Rightarrow> data_service" where
  "signed_in u = initial\<lparr>currentUser := Some u\<rparr>"

definition sample_input :: post_input where
  "sample_input =
     \<lparr>in_title = ''WhatsApp Web'', in_description = ''Messages from your computer'',
      in_url = ''https://web.whatsapp.com'', in_imageUrl = ''https://example.org/w.svg'',
      in_categoryId = ''c1''\<rparr>"

definition sample_listing :: "string \<Rightarrow> string \<Rightarrow> post_data" where
  "sample_listing title date =
     \<lparr>post_title = title, post_description = [], post_url = ''https://example.org'',
      post_imageUrl = ''https://example.org/i.svg'', post_categoryId = ''c1'',
      post_publisherId = ''u1'', post_publisherName = ''Pat'', post_date = date,
      post_views = 0\<rparr>"

definition no_change :: partial_post where
  "no_change =
     \<lparr>pp_id = None, pp_title = None, pp_description = None, pp_url = None, pp_imageUrl = None,
      pp_categoryId = None, pp_publisherId = None, pp_publisherName = None, pp_date = None,
      pp_views = None\<rparr>"

text \<open>
  The readings of \<open>new Date(s).getTime()\<close> on two ISO dates; every other string of the
  samples is not a date.
\<close>

definition sample_getTime :: "string \<Rightarrow> int option" where
  "sample_getTime =
     map_of [(''2024-01-01T00:00:00.000Z'', 1704067200000),
             (''2024-01-02T00:00:00.000Z'', 1704153600000)]"

section \<open>The derived permission\<close>

text \<open>
  C1 as stated fails. A credential without a profile is published by \<open>initAuth\<close> as the
  fallback identity, whose role is \<open>user\<close> and whose flag is true, and \<open>canEdit\<close> is
  true for it.
\<close>

theorem canEdit_role_user_counterexample:
  "map_option user_role
     (currentUser (onUserValue \<lparr>fb_uid = ''u1'', fb_email = Some ''pat@example.org'',
                                 fb_displayName = None\<rparr> None initial)) = Some User
   \<and> canEdit (onUserValue \<lparr>fb_uid = ''u1'', fb_email = Some ''pat@example.org'',
                            fb_displayName = None\<rparr> None initial)"
  by (simp add: onUserValue_def fallbackUser_def initial_def canEdit_def)

text \<open>
  C1, amended: for every signed-in identity whose role is \<open>user\<close>, \<open>canEdit\<close> equals the
  identity's editable-flag, true when the flag is unset: it is false only when the flag
  is explicitly false.
\<close>

theorem canEdit_role_user:
  "currentUser st = Some u \<Longrightarrow> user_role u = User \<Longrightarrow> canEdit st = editable_flag u"
  by (cases "user_canEdit u") (auto simp: canEdit_def editable_flag_def)

text \<open>C1 on a reader whose flag is false.\<close>

theorem canEdit_role_user_witness:
  "currentUser (signed_in (sample_user User (Some False))) = Some (sample_user User (Some False))
   \<and> user_role (sample_user User (Some False)) = User
   \<and> \<not> canEdit (signed_in (sample_user User (Some False)))"
  using canEdit_role_user [of "signed_in (sample_user User (Some False))"
                              "sample_user User (Some False)"]
  by (simp add: signed_in_def sample_user_def editable_flag_def)

text \<open>
  C3: \<open>canEdit\<close> is false when no identity is signed in, true for every signed-in admin
  whatever the editable-flag, and for a signed-in publisher it equals the editable-flag,
  true when the flag is unset.
\<close>

theorem canEdit_derivation:
  "(currentUser s0 = None \<longrightarrow> \<not> canEdit s0)
   \<and> (currentUser s1 = Some a \<and> user_role a = Admin \<longrightarrow> canEdit s1)
   \<and> (currentUser s2 = Some b \<and> user_role b = Publisher \<longrightarrow> canEdit s2 = editable_flag b)"
  by (cases "user_canEdit b") (auto simp: canEdit_def editable_flag_def)

text \<open>C3 on the signed-out service, an admin whose flag is false and a publisher whose flag is unset.\<close>

theorem canEdit_derivation_witness:
  "(currentUser initial = None \<and> \<not> canEdit initial)
   \<and> (currentUser (signed_in (sample_user Admin (Some False)))
         = Some (sample_user Admin (Some False))
       \<and> user_role (sample_user Admin (Some False)) = Admin
       \<and> canEdit (signed_in (sample_user Admin (Some False))))
   \<and> (currentUser (signed_in (sample_user Publisher None)) = Some (sample_user Publisher None)
       \<and> user_role (sample_user Publisher None) = Publisher
       \<and> canEdit (signed_in (sample_user Publisher None)))"
  using canEdit_derivation [of initial "signed_in (sample_user Admin (Some False))"
          "sample_user Admin (Some False)" "signed_in (sample_user Publisher None)"
          "sample_user Publisher None"]
  by (simp add: signed_in_def sample_user_def initial_def editable_flag_def)

section \<open>Creating, updating and deleting listings\<close>

text \<open>
  C2 as stated fails. With no identity signed in \<open>canEdit\<close> is false, yet \<open>addPost\<close>
  returns without an error.
\<close>

theorem addPost_signed_out_counterexample:
  "\<not> canEdit initial
   \<and> addPost initial sample_input ''k1'' ''2024-01-01T00:00:00.000Z'' (Fulfilled ())
       = (Inr (), initial)"
  by (simp add: addPost_def canEdit_def initial_def)

text \<open>
  C2, amended: \<open>addPost\<close> fails with PermissionDenied if and only if an identity is signed
  in and \<open>canEdit\<close> is false at the call; with no identity signed in the call returns
  without an error.
\<close>

theorem addPost_PermissionDenied_iff:
  "((\<exists>msg. fst (addPost st postData key now p) = Inl (PermissionDenied msg))
      \<longleftrightarrow> currentUser st \<noteq> None \<and> \<not> canEdit st)
   \<and> (currentUser st = None \<longrightarrow> fst (addPost st postData key now p) = Inr ())"
  by (cases "currentUser st"; cases p) (auto simp: addPost_def await_def)

text \<open>C2 on a publisher whose flag is false and on the signed-out service.\<close>

theorem addPost_PermissionDenied_iff_witness:
  "currentUser (signed_in (sample_user Publisher (Some False))) \<noteq> None
   \<and> \<not> canEdit (signed_in (sample_user Publisher (Some False)))
   \<and> fst (addPost (signed_in (sample_user Publisher (Some False))) sample_input ''k1''
            ''2024-01-01T00:00:00.000Z'' (Fulfilled ()))
       = Inl (PermissionDenied ''You do not have permission to post.'')
   \<and> currentUser initial = None
   \<and> fst (addPost initial sample_input ''k1'' ''2024-01-01T00:00:00.000Z'' (Fulfilled ()))
       = Inr ()"
  using addPost_PermissionDenied_iff [of "signed_in (sample_user Publisher (Some False))"
          sample_input "''k1''" "''2024-01-01T00:00:00.000Z''" "Fulfilled ()"]
        addPost_PermissionDenied_iff [of initial
          sample_input "''k1''" "''2024-01-01T00:00:00.000Z''" "Fulfilled ()"]
  by (simp add: signed_in_def sample_user_def initial_def canEdit_def addPost_def)

text \<open>
  C10: with no identity signed in, \<open>addPost\<close> and \<open>updatePost\<close> return without an error
  and leave the service as it was, the list of requests to the store included: nothing
  is written, whatever the store would have answered.
\<close>

theorem signed_out_post_calls_silent:
  assumes "currentUser st = None"
  shows "addPost st postData key now p = (Inr (), st)
         \<and> updatePost st ident changes q = (Inr (), st)"
  using assms by (simp add: addPost_def updatePost_def)

text \<open>C10 on the signed-out service, with a store that would reject the write.\<close>

theorem signed_out_post_calls_silent_witness:
  "currentUser initial = None
   \<and> addPost initial sample_input ''k1'' ''2024-01-01T00:00:00.000Z'' (Rejected ''offline'')
       = (Inr (), initial)
   \<and> updatePost initial ''p1'' no_change (Rejected ''offline'') = (Inr (), initial)"
  using signed_out_post_calls_silent [of initial sample_input "''k1''"
          "''2024-01-01T00:00:00.000Z''" "Rejected ''offline''" "''p1''" no_change
          "Rejected ''offline''"]
  by (simp add: initial_def)

text \<open>
  C5: \<open>deletePost\<close> sends the removal of \<open>posts/<id>\<close> in every state, with no guard on
  the identity or on \<open>canEdit\<close>; it never fails with PermissionDenied, and it succeeds
  whenever the store accepts the removal.
\<close>

theorem deletePost_unconditional:
  "deletePost st ident (Fulfilled ()) = (Inr (), send (Remove (''posts/'' @ ident)) st)
   \<and> fst (deletePost st ident p) \<noteq> Inl (PermissionDenied msg)
   \<and> requests (snd (deletePost st ident p)) = requests st @ [Remove (''posts/'' @ ident)]"
  by (cases p) (simp_all add: deletePost_def await_def send_def)

text \<open>C5 with no identity signed in and with a publisher whose flag is false.\<close>

theorem deletePost_unconditional_witness:
  "\<not> canEdit initial
   \<and> deletePost initial ''p1'' (Fulfilled ()) = (Inr (), initial\<lparr>requests := [Remove ''posts/p1'']\<rparr>)
   \<and> \<not> canEdit (signed_in (sample_user Publisher (Some False)))
   \<and> deletePost (signed_in (sample_user Publisher (Some False))) ''p1'' (Fulfilled ())
       = (Inr (), signed_in (sample_user Publisher (Some False))\<lparr>requests := [Remove ''posts/p1'']\<rparr>)"
  using deletePost_unconditional [of initial "''p1''" "Fulfilled ()"]
        deletePost_unconditional [of "signed_in (sample_user Publisher (Some False))" "''p1''"
          "Fulfilled ()"]
  by (simp add: send_def initial_def signed_in_def sample_user_def canEdit_def)

section \<open>Registration and sign-out\<close>

text \<open>
  C4: every successful \<open>register\<close> has written exactly one profile, at \<open>users/<uid>\<close>. Its
  role is \<open>admin\<close> when the email is the hardcoded address, whatever role was requested;
  for every other email it is the requested role: \<open>publisher\<close> when \<open>publisher\<close> was
  requested and \<open>user\<close> when \<open>user\<close> was requested. Its editable-flag is true.
\<close>

theorem register_profile:
  assumes "fst (register st name email pass role credential p) = Inr ok"
  shows "\<exists>uid profile.
           credential = Fulfilled uid \<and> p = Fulfilled () \<and> ok
           \<and> requests (snd (register st name email pass role credential p))
               = requests st @ [SetUser (''users/'' @ uid) profile]
           \<and> (email = ''moinulbd.sk@gmail.com'' \<longrightarrow> user_role profile = Admin)
           \<and> (email \<noteq> ''moinulbd.sk@gmail.com'' \<and> role = AsPublisher
                \<longrightarrow> user_role profile = Publisher)
           \<and> (email \<noteq> ''moinulbd.sk@gmail.com'' \<and> role = AsUser
                \<longrightarrow> user_role profile = User)
           \<and> user_canEdit profile = Some True
           \<and> user_name profile = name \<and> user_email profile = email"
  using assms
  by (cases credential; cases p; cases role)
     (auto simp: register_def await_def send_def Let_def)

text \<open>
  C4 on the hardcoded address asking for \<open>user\<close>, and on another address asking for
  \<open>publisher\<close> and asking for \<open>user\<close>.
\<close>

theorem register_profile_witness:
  "fst (register initial ''A'' ''moinulbd.sk@gmail.com'' ''pw'' AsUser (Fulfilled ''u7'')
          (Fulfilled ())) = Inr True
   \<and> requests (snd (register initial ''A'' ''moinulbd.sk@gmail.com'' ''pw'' AsUser
                       (Fulfilled ''u7'') (Fulfilled ())))
       = [SetUser ''users/u7''
            \<lparr>user_email = ''moinulbd.sk@gmail.com'', user_name = ''A'', user_role = Admin,
             user_canEdit = Some True\<rparr>]
   \<and> fst (register initial ''B'' ''pat@example.org'' ''pw'' AsPublisher (Fulfilled ''u8'')
          (Fulfilled ())) = Inr True
   \<and> requests (snd (register initial ''B'' ''pat@example.org'' ''pw'' AsPublisher
                       (Fulfilled ''u8'') (Fulfilled ())))
       = [SetUser ''users/u8''
            \<lparr>user_email = ''pat@example.org'', user_name = ''B'', user_role = Publisher,
             user_canEdit = Some True\<rparr>]
   \<and> ''ray@example.org'' \<noteq> ''moinulbd.sk@gmail.com''
   \<and> fst (register initial ''C'' ''ray@example.org'' ''pw'' AsUser (Fulfilled ''u9'')
          (Fulfilled ())) = Inr True
   \<and> requests (snd (register initial ''C'' ''ray@example.org'' ''pw'' AsUser
                       (Fulfilled ''u9'') (Fulfilled ())))
       = [SetUser ''users/u9''
            \<lparr>user_email = ''ray@example.org'', user_name = ''C'', user_role = User,
             user_canEdit = Some True\<rparr>]"
  using register_profile [of initial "''A''" "''moinulbd.sk@gmail.com''" "''pw''" AsUser
          "Fulfilled ''u7''" "Fulfilled ()" True]
        register_profile [of initial "''B''" "''pat@example.org''" "''pw''" AsPublisher
          "Fulfilled ''u8''" "Fulfilled ()" True]
        register_profile [of initial "''C''" "''ray@example.org''" "''pw''" AsUser
          "Fulfilled ''u9''" "Fulfilled ()" True]
  by (simp add: register_def await_def send_def initial_def)

text \<open>
  C7: when \<open>logout\<close> completes, the current identity is absent and \<open>isAdmin\<close>,
  \<open>isPublisher\<close> and \<open>canEdit\<close> are false. The state is the one \<open>logout\<close> itself leaves:
  no session-change notification has been handled.
\<close>

theorem logout_clears_identity:
  assumes "logout st p = (Inr (), st')"
  shows "p = Fulfilled () \<and> st' = st\<lparr>currentUser := None\<rparr> \<and> currentUser st' = None
         \<and> \<not> isAdmin st' \<and> \<not> isPublisher st' \<and> \<not> canEdit st'"
  using assms
  by (cases p) (auto simp: logout_def isAdmin_def isPublisher_def canEdit_def)

text \<open>C7 on a signed-in admin.\<close>

theorem logout_clears_identity_witness:
  "isAdmin (signed_in (sample_user Admin None))
   \<and> logout (signed_in (sample_user Admin None)) (Fulfilled ()) = (Inr (), initial)
   \<and> currentUser initial = None \<and> \<not> isAdmin initial \<and> \<not> isPublisher initial
   \<and> \<not> canEdit initial"
  using logout_clears_identity [of "signed_in (sample_user Admin None)" "Fulfilled ()" initial]
  by (simp add: logout_def signed_in_def sample_user_def initial_def isAdmin_def)

section \<open>The snapshot of the listings\<close>

text \<open>The sort keeps the elements, whatever the comparator.\<close>

lemma mset_sort_insert: "mset (sort_insert c x ys) = add_mset x (mset ys)"
  by (induction ys) auto

lemma mset_array_sort: "mset (array_sort c xs) = mset xs"
  by (induction xs) (auto simp: array_sort_def mset_sort_insert)

lemma set_sort_insert: "set (sort_insert c x ys) = insert x (set ys)"
  using mset_sort_insert [of c x ys, THEN arg_cong, of set_mset] by simp

text \<open>On listings whose dates are valid the comparator is the difference of the timestamps.\<close>

lemma sortCompare_dated:
  "getTime (post_date a) = Some ta \<Longrightarrow> getTime (post_date b) = Some tb
     \<Longrightarrow> sortCompare (compareDates getTime) a b = tb - ta"
  by (simp add: sortCompare_def compareDates_def)

lemma not_newer_dated:
  "getTime (post_date a) = Some ta \<Longrightarrow> getTime (post_date b) = Some tb
     \<Longrightarrow> not_newer getTime a b \<longleftrightarrow> tb \<le> ta"
  by (auto simp: not_newer_def)

lemma sorted_sort_insert:
  assumes "\<forall>y \<in> set (x # ys). getTime (post_date y) \<noteq> None"
    and "sorted_wrt (not_newer getTime) ys"
  shows "sorted_wrt (not_newer getTime) (sort_insert (compareDates getTime) x ys)"
  using assms
proof (induction ys)
  case Nil
  then show ?case by simp
next
  case (Cons y ys)
  from Cons.prems(1) obtain tx ty
    where tx: "getTime (post_date x) = Some tx" and ty: "getTime (post_date y) = Some ty"
    by auto
  show ?case
  proof (cases "sortCompare (compareDates getTime) x y \<le> 0")
    case True
    then have le: "ty \<le> tx" using sortCompare_dated [OF tx ty] by simp
    have "not_newer getTime x z" if "z \<in> set (y # ys)" for z
    proof -
      from that Cons.prems(1) obtain tz where tz: "getTime (post_date z) = Some tz" by auto
      have "tz \<le> ty"
      proof (cases "z = y")
        case True
        with ty tz show ?thesis by simp
      next
        case False
        with that Cons.prems(2) have "not_newer getTime y z" by auto
        then show ?thesis using not_newer_dated [OF ty tz] by simp
      qed
      with le show ?thesis using not_newer_dated [OF tx tz] by simp
    qed
    with True Cons.prems(2) show ?thesis by simp
  next
    case False
    then have lt: "tx < ty" using sortCompare_dated [OF tx ty] by simp
    have ih: "sorted_wrt (not_newer getTime) (sort_insert (compareDates getTime) x ys)"
      using Cons.IH Cons.prems by simp
    have "not_newer getTime y z" if "z \<in> set (sort_insert (compareDates getTime) x ys)" for z
    proof (cases "z = x")
      case True
      with lt show ?thesis using not_newer_dated [OF ty tx] by simp
    next
      case False
      with that have "z \<in> set ys" by (simp add: set_sort_insert)
      with Cons.prems(2) show ?thesis by simp
    qed
    with False ih show ?thesis by simp
  qed
qed

lemma sorted_array_sort:
  "\<forall>y \<in> set xs. getTime (post_date y) \<noteq> None
     \<Longrightarrow> sorted_wrt (not_newer getTime) (array_sort (compareDates getTime) xs)"
proof (induction xs)
  case Nil
  then show ?case by (simp add: array_sort_def)
next
  case (Cons x xs)
  have tail: "sorted_wrt (not_newer getTime) (array_sort (compareDates getTime) xs)"
    using Cons by simp
  have "\<forall>y \<in> set (x # array_sort (compareDates getTime) xs). getTime (post_date y) \<noteq> None"
    using Cons.prems mset_array_sort [of "compareDates getTime" xs, THEN arg_cong, of set_mset]
    by simp
  from sorted_sort_insert [OF this tail] show ?case by (simp add: array_sort_def)
qed

text \<open>
  C6: after every snapshot replace the local list of listings is to be sorted by
  timestamp, newest first. The callback sorts for that and misses the date that is not a
  date: such a listing compares as equal to every other listing and shields its
  neighbours from each other. The snapshot below keeps its order, so the listing of
  1 January stands before the listing of 2 January and the list is not sorted newest
  first. Every adjacent pair of it has the listing without a timestamp on one side, and
  no pair of timestamps is left to compare there.
\<close>

theorem onPostsValue_older_before_newer:
  "posts (onPostsValue sample_getTime
            (Some [(''a'', sample_listing ''First'' ''2024-01-01T00:00:00.000Z''),
                   (''b'', sample_listing ''Draft'' ''soon''),
                   (''c'', sample_listing ''Second'' ''2024-01-02T00:00:00.000Z'')]) initial)
     = [post_of ''a'' (sample_listing ''First'' ''2024-01-01T00:00:00.000Z''),
        post_of ''b'' (sample_listing ''Draft'' ''soon''),
        post_of ''c'' (sample_listing ''Second'' ''2024-01-02T00:00:00.000Z'')]
   \<and> \<not> sorted_wrt (not_newer sample_getTime)
         (posts (onPostsValue sample_getTime
            (Some [(''a'', sample_listing ''First'' ''2024-01-01T00:00:00.000Z''),
                   (''b'', sample_listing ''Draft'' ''soon''),
                   (''c'', sample_listing ''Second'' ''2024-01-02T00:00:00.000Z'')]) initial))
   \<and> successively (not_newer sample_getTime)
         (posts (onPostsValue sample_getTime
            (Some [(''a'', sample_listing ''First'' ''2024-01-01T00:00:00.000Z''),
                   (''b'', sample_listing ''Draft'' ''soon''),
                   (''c'', sample_listing ''Second'' ''2024-01-02T00:00:00.000Z'')]) initial))"
  by (simp add: onPostsValue_def array_sort_def sortCompare_def compareDates_def
        post_of_def sample_listing_def sample_getTime_def not_newer_def initial_def)

text \<open>
  Where the date of every listing of the snapshot is a valid date the callback does sort:
  the local list holds the listings of the snapshot, and no listing has a greater
  timestamp than a listing before it, adjacent or not. An absent snapshot gives the
  empty list.
\<close>

lemma onPostsValue_sorted_valid_dates:
  assumes "valid_dates getTime data"
  shows "sorted_wrt (not_newer getTime) (posts (onPostsValue getTime (Some data) st))
         \<and> successively (not_newer getTime) (posts (onPostsValue getTime (Some data) st))
         \<and> mset (posts (onPostsValue getTime (Some data) st))
             = mset (map (\<lambda>(key, d). post_of key d) data)
         \<and> posts (onPostsValue getTime None st) = []"
proof -
  let ?xs = "map (\<lambda>(key, d). post_of key d) data"
  have "\<forall>y \<in> set ?xs. getTime (post_date y) \<noteq> None"
    using assms by (auto simp: valid_dates_def list_all_iff post_of_def)
  then have s: "sorted_wrt (not_newer getTime) (array_sort (compareDates getTime) ?xs)"
    by (rule sorted_array_sort)
  then have "successively (not_newer getTime) (array_sort (compareDates getTime) ?xs)"
    by (rule successively_if_sorted_wrt)
  with s show ?thesis by (simp add: onPostsValue_def mset_array_sort)
qed

text \<open>A snapshot of two dated listings, the older one first in the store.\<close>

lemma onPostsValue_sorted_valid_dates_example:
  "valid_dates sample_getTime
     [(''a'', sample_listing ''First'' ''2024-01-01T00:00:00.000Z''),
      (''c'', sample_listing ''Second'' ''2024-01-02T00:00:00.000Z'')]
   \<and> posts (onPostsValue sample_getTime
            (Some [(''a'', sample_listing ''First'' ''2024-01-01T00:00:00.000Z''),
                   (''c'', sample_listing ''Second'' ''2024-01-02T00:00:00.000Z'')]) initial)
     = [post_of ''c'' (sample_listing ''Second'' ''2024-01-02T00:00:00.000Z''),
        post_of ''a'' (sample_listing ''First'' ''2024-01-01T00:00:00.000Z'')]
   \<and> sorted_wrt (not_newer sample_getTime)
        (posts (onPostsValue sample_getTime
            (Some [(''a'', sample_listing ''First'' ''2024-01-01T00:00:00.000Z''),
                   (''c'', sample_listing ''Second'' ''2024-01-02T00:00:00.000Z'')]) initial))"
  using onPostsValue_sorted_valid_dates [of sample_getTime
          "[(''a'', sample_listing ''First'' ''2024-01-01T00:00:00.000Z''),
            (''c'', sample_listing ''Second'' ''2024-01-02T00:00:00.000Z'')]" initial]
  by (simp add: valid_dates_def onPostsValue_def array_sort_def sortCompare_def compareDates_def
        post_of_def sample_listing_def sample_getTime_def initial_def)

section \<open>The slug of a category\<close>

text \<open>
  The scan of \<open>replace(/\s+/g, '-')\<close> and the run-by-run reading agree: up to the next
  whitespace the scan copies, and a whitespace run becomes one hyphen.
\<close>

lemma replace_ws_runs_skip:
  "replace_ws_runs r cs
     = takeWhile (\<lambda>d. \<not> isSpace d) cs @ replace_ws_runs r (dropWhile (\<lambda>d. \<not> isSpace d) cs)"
  by (induction cs) auto

lemma replace_ws_runs_hyphenate: "replace_ws_runs ''-'' s = hyphenate_runs s"
proof (induction s rule: runs.induct)
  case 1
  show ?case by (simp add: hyphenate_runs_def)
next
  case (2 c cs)
  show ?case
  proof (cases "isSpace c")
    case True
    then have eq: "(\<lambda>d. isSpace d = isSpace c) = isSpace" by auto
    from 2 True show ?thesis
      by (simp add: hyphenate_runs_def hyphenate_run_def eq)
  next
    case False
    then have eq: "(\<lambda>d. isSpace d = isSpace c) = (\<lambda>d. \<not> isSpace d)" by auto
    have "replace_ws_runs ''-'' (c # cs) = c # replace_ws_runs ''-'' cs"
      using False by simp
    also have "\<dots> = c # takeWhile (\<lambda>d. \<not> isSpace d) cs
                       @ replace_ws_runs ''-'' (dropWhile (\<lambda>d. \<not> isSpace d) cs)"
      using replace_ws_runs_skip [of "''-''" cs] by simp
    finally show ?thesis
      using 2 False by (simp add: hyphenate_runs_def hyphenate_run_def eq)
  qed
qed

lemma slug_Tech_News: "replace_ws_runs ''-'' (toLowerCase ''Tech News'') = ''tech-news''"
  by code_simp

lemma slug_double_space: "replace_ws_runs ''-'' (toLowerCase ''Tech  News'') = ''tech-news''"
  by code_simp

lemma unit_reading_double_space: "spaces_to_hyphens (toLowerCase ''Tech  News'') = ''tech--news''"
  by code_simp

lemma slug_mixed_whitespace:
  "hyphenate_runs (toLowerCase ''Zerro  Level Up'') = ''zerro-level-up''"
  by code_simp

text \<open>
  C8 as stated fails. For a name with two spaces in a row \<open>addCategory\<close> writes a slug
  with one hyphen, where replacing the spaces by hyphens gives two.
\<close>

theorem addCategory_slug_counterexample:
  "addCategory initial ''Tech  News'' ''#'' ''k1'' (Fulfilled ())
     = (Inr ''k1'',
        initial\<lparr>requests :=
          [SetCategory ''categories/k1''
             \<lparr>cat_name = ''Tech  News'', cat_icon = ''#'', cat_slug = ''tech-news''\<rparr>]\<rparr>)
   \<and> spaces_to_hyphens (toLowerCase ''Tech  News'') = ''tech--news''"
  by (simp add: addCategory_def await_def send_def initial_def slug_double_space
        unit_reading_double_space)

text \<open>
  C8, amended: \<open>addCategory\<close> writes, at the key that the store generated, the name, the
  icon and the slug, which is the lowercase of the name with every maximal run of
  whitespace replaced by one hyphen, and it returns that key; for the name "Tech News"
  and any icon the slug is "tech-news".
\<close>

theorem addCategory_slug:
  "addCategory st name icon key (Fulfilled ())
     = (Inr key,
        send (SetCategory (''categories/'' @ key)
                \<lparr>cat_name = name, cat_icon = icon,
                 cat_slug = hyphenate_runs (toLowerCase name)\<rparr>) st)
   \<and> addCategory st ''Tech News'' icon key (Fulfilled ())
     = (Inr key,
        send (SetCategory (''categories/'' @ key)
                \<lparr>cat_name = ''Tech News'', cat_icon = icon, cat_slug = ''tech-news''\<rparr>) st)"
  by (simp add: addCategory_def await_def replace_ws_runs_hyphenate [symmetric] slug_Tech_News)

text \<open>C8 on a name with a run of two spaces and a single space.\<close>

theorem addCategory_slug_witness:
  "addCategory initial ''Zerro  Level Up'' ''#'' ''k1'' (Fulfilled ())
     = (Inr ''k1'',
        initial\<lparr>requests :=
          [SetCategory ''categories/k1''
             \<lparr>cat_name = ''Zerro  Level Up'', cat_icon = ''#'', cat_slug = ''zerro-level-up''\<rparr>]\<rparr>)"
  using addCategory_slug [of initial "''Zerro  Level Up''" "''#''" "''k1''"]
  by (simp add: send_def initial_def slug_mixed_whitespace)

section \<open>The filtered listings\<close>

text \<open>
  \<open>includes\<close> is containment of a contiguous piece, and lowercasing both sides is
  containment up to letter case.
\<close>

lemma includes_str_sublist: "includes_str hay needle \<longleftrightarrow> sublist needle hay"
  by (induction hay) (auto simp: sublist_Cons_right)

lemma set_pieces: "set (pieces s) = {x. sublist x s}"
  by (auto simp: pieces_def in_set_prefixes in_set_suffixes sublist_altdef')

lemma ci_equal_map: "ci_equal s t \<longleftrightarrow> map lower_unit s = map lower_unit t"
proof (induction s arbitrary: t)
  case Nil
  show ?case by (simp add: ci_equal_def)
next
  case (Cons a s)
  then show ?case by (cases t) (auto simp: ci_equal_def)
qed

lemma sublist_map_iff: "sublist ys (map f xs) \<longleftrightarrow> (\<exists>zs. sublist zs xs \<and> map f zs = ys)"
proof
  assume "sublist ys (map f xs)"
  then obtain ps ss where "map f xs = ps @ ys @ ss" by (auto simp: sublist_def)
  then obtain a r where a: "xs = a @ r" and r: "map f r = ys @ ss"
    by (metis map_eq_append_conv)
  from r obtain b c where "r = b @ c" and "map f b = ys"
    by (metis map_eq_append_conv)
  with a have "xs = a @ b @ c" and "map f b = ys" by simp_all
  then show "\<exists>zs. sublist zs xs \<and> map f zs = ys" by auto
next
  assume "\<exists>zs. sublist zs xs \<and> map f zs = ys"
  then show "sublist ys (map f xs)" using map_mono_sublist by blast
qed

lemma ci_contains_includes:
  "ci_contains txt search \<longleftrightarrow> includes_str (toLowerCase txt) (toLowerCase search)"
  by (auto simp: ci_contains_def list_ex_iff set_pieces ci_equal_map includes_str_sublist
        toLowerCase_def sublist_map_iff)

lemma includes_web: "includes_str (toLowerCase ''WhatsApp Web'') (toLowerCase ''web'')"
  by code_simp

lemma includes_tube:
  "includes_str (toLowerCase ''YouTube'') (toLowerCase ''TUBE'')"
  "\<not> includes_str (toLowerCase ''WhatsApp Web'') (toLowerCase ''TUBE'')"
  "\<not> includes_str (toLowerCase ''Pat'') (toLowerCase ''TUBE'')"
  by code_simp+

text \<open>
  C9: for every set of listings, search text and category filter, \<open>filteredPosts\<close> is the
  list of exactly the listings, in their order, whose title or author name contains the
  search text case-insensitively and whose category is the filter, or the filter is
  "all"; on one listing titled "WhatsApp Web", the search "web" and the filter "all" it
  is that listing.
\<close>

theorem filteredPosts_exact:
  "filteredPosts app
     = filter (listing_matches (searchQuery app) (selectedCategory app)) (posts (dataService app))
   \<and> filteredPosts \<lparr>dataService = st\<lparr>posts := [p\<lparr>post_title := ''WhatsApp Web''\<rparr>]\<rparr>,
                     searchQuery = ''web'', selectedCategory = ''all''\<rparr>
     = [p\<lparr>post_title := ''WhatsApp Web''\<rparr>]"
proof
  have "listing_matches (searchQuery app) (selectedCategory app)
          = (\<lambda>post. (includes_str (toLowerCase (post_title post)) (toLowerCase (searchQuery app))
                        \<or> includes_str (toLowerCase (post_publisherName post))
                             (toLowerCase (searchQuery app)))
                      \<and> (selectedCategory app = ''all''
                           \<or> post_categoryId post = selectedCategory app))"
    by (auto simp: listing_matches_def ci_contains_includes fun_eq_iff)
  then show "filteredPosts app
     = filter (listing_matches (searchQuery app) (selectedCategory app)) (posts (dataService app))"
    by (simp add: filteredPosts_def Let_def)
next
  show "filteredPosts \<lparr>dataService = st\<lparr>posts := [p\<lparr>post_title := ''WhatsApp Web''\<rparr>]\<rparr>,
                     searchQuery = ''web'', selectedCategory = ''all''\<rparr>
     = [p\<lparr>post_title := ''WhatsApp Web''\<rparr>]"
    using includes_web by (simp add: filteredPosts_def Let_def)
qed

text \<open>C9 on two listings, an upper-case search text and the filter of their category.\<close>

theorem filteredPosts_exact_witness:
  "filter (listing_matches ''TUBE'' ''c1'')
     [post_of ''p1'' (sample_listing ''WhatsApp Web'' ''2024-01-01T00:00:00.000Z''),
      post_of ''p2'' (sample_listing ''YouTube'' ''2024-01-02T00:00:00.000Z'')]
     = [post_of ''p2'' (sample_listing ''YouTube'' ''2024-01-02T00:00:00.000Z'')]"
  using filteredPosts_exact [where app =
          "\<lparr>dataService = initial\<lparr>posts :=
              [post_of ''p1'' (sample_listing ''WhatsApp Web'' ''2024-01-01T00:00:00.000Z''),
               post_of ''p2'' (sample_listing ''YouTube'' ''2024-01-02T00:00:00.000Z'')]\<rparr>,
            searchQuery = ''TUBE'', selectedCategory = ''c1''\<rparr>"
          and st = initial
          and p = "post_of ''p1'' (sample_listing ''WhatsApp Web'' ''2024-01-01T00:00:00.000Z'')"]
  by (simp add: filteredPosts_def post_of_def sample_listing_def includes_tube)

end
